theory Spec2Isabelle
  imports Main
begin

section \<open>The development launcher \<open>dev.js\<close>\<close>

text \<open>
  \<open>dev.js\<close> is an event-driven script: its top level runs once (banner, two calls of
  \<open>run\<close>, registration of the interrupt handler), and from then on the runtime calls the
  registered listeners, one event at a time, each listener running to completion.

  The embedding keeps the script's calls as operations on an explicit state:
  what the script has done (\<open>trace\<close>, in the order of the calls), the child processes it
  has spawned (\<open>children\<close>, a handle is the position in that list), the listeners it has
  registered (\<open>listeners\<close>, in the order of registration), the handles of the children
  that have not yet ended (\<open>active\<close>) and whether the supervisor process is still alive
  (\<open>status\<close>). The two closures of the source are the two constructors of
  \<open>listener\<close>, each holding the variables its closure captures.
\<close>

subsection \<open>Values, events and effects\<close>

text \<open>The values a listener receives: \<open>null\<close>, \<open>undefined\<close>, an integer number, a string.\<close>

datatype jsval = Null | Undefined | Num int | Str string

text \<open>An emitter is a spawned child (by handle) or the supervisor's own \<open>process\<close> object.\<close>

datatype emitter = Child nat | Process

text \<open>
  \<open>CloseLogger name\<close> is the arrow function of \<open>run\<close>, which captures \<open>name\<close>;
  \<open>SigintHandler backend frontend\<close> is the arrow function given to
  \<open>process.on("SIGINT", ...)\<close>, which captures the two handles.
\<close>

datatype listener = CloseLogger string | SigintHandler nat nat

text \<open>An event of the runtime: emitter, event name, arguments.\<close>

datatype event = Event emitter string "jsval list"

text \<open>
  What the script does to the outside: a \<open>console.log\<close> call with its argument, a spawn
  (handle, file, arguments), a \<open>kill\<close> call on a handle with a signal name, and
  \<open>process.exit()\<close>.
\<close>

datatype effect = Log string | Spawn nat string "string list" | Kill nat string | Exit

text \<open>
  The supervisor is running, or it has ended: by its own \<open>process.exit()\<close>
  (\<open>Exited\<close>), by an uncaught exception (\<open>Crashed\<close>), or because nothing is left that
  the runtime's loop could wait for (\<open>Ended\<close>).
\<close>

datatype status = Running | Exited | Crashed | Ended

record child =
  spawnfile :: string
  spawnargs :: "string list"
  stdio :: string

record state =
  trace :: "effect list"
  children :: "child list"
  active :: "nat list"
  listeners :: "(emitter \<times> string \<times> listener) list"
  status :: status

definition init :: state where
  "init = \<lparr>trace = [], children = [], active = [], listeners = [], status = Running\<rparr>"

subsection \<open>Template literals\<close>

definition digit :: "nat \<Rightarrow> char" where
  "digit d = ''0123456789'' ! d"

function show_nat :: "nat \<Rightarrow> string" where
  "show_nat n = (if n < 10 then [digit n] else show_nat (n div 10) @ [digit (n mod 10)])"
  by pat_completeness auto
termination
  by (relation "measure id") auto

definition show_int :: "int \<Rightarrow> string" where
  "show_int i = (if i < 0 then CHR ''-'' # show_nat (nat (- i)) else show_nat (nat i))"

text \<open>The string a template literal \<open>${v}\<close> puts in for a value.\<close>

fun to_string :: "jsval \<Rightarrow> string" where
  "to_string Null = ''null''"
| "to_string Undefined = ''undefined''"
| "to_string (Num i) = show_int i"
| "to_string (Str s) = s"

text \<open>A parameter of a listener: the argument at that position, \<open>undefined\<close> when missing.\<close>

fun arg :: "nat \<Rightarrow> jsval list \<Rightarrow> jsval" where
  "arg n [] = Undefined"
| "arg 0 (v # vs) = v"
| "arg (Suc n) (v # vs) = arg n vs"

subsection \<open>The runtime calls the script makes\<close>

definition console_log :: "string \<Rightarrow> state \<Rightarrow> state" where
  "console_log msg s = s\<lparr>trace := trace s @ [Log msg]\<rparr>"

text \<open>
  \<open>spawn(file, args, {stdio})\<close> creates the child object and returns it at once; what
  becomes of the operating-system process is reported later, by events on the handle.
  The handle of a child that has not ended keeps the runtime's loop going.
\<close>

definition spawn :: "string \<Rightarrow> string list \<Rightarrow> string \<Rightarrow> state \<Rightarrow> nat \<times> state" where
  "spawn file args io s =
     (let p = length (children s)
      in (p, s\<lparr>trace := trace s @ [Spawn p file args],
               children := children s @ [\<lparr>spawnfile = file, spawnargs = args, stdio = io\<rparr>],
               active := active s @ [p]\<rparr>))"

definition on :: "emitter \<Rightarrow> string \<Rightarrow> listener \<Rightarrow> state \<Rightarrow> state" where
  "on em ev l s = s\<lparr>listeners := listeners s @ [(em, ev, l)]\<rparr>"

text \<open>\<open>p.kill(sig)\<close>: the call is recorded; the script does not look at its result.\<close>

definition kill :: "nat \<Rightarrow> string \<Rightarrow> state \<Rightarrow> state" where
  "kill p sig s = s\<lparr>trace := trace s @ [Kill p sig]\<rparr>"

definition process_exit :: "state \<Rightarrow> state" where
  "process_exit s = s\<lparr>trace := trace s @ [Exit], status := Exited\<rparr>"

subsection \<open>The script\<close>

text \<open>
  \<^verbatim>\<open>
  function run(command, name) {
    const p = spawn("bash", ["-lc", command], { stdio: "inherit" });
    p.on("close", (code) => {
      console.log(`Process ${name} stopped with code ${code}`);
    });
    return p;
  }
  \<close>
\<close>

definition run :: "string \<Rightarrow> string \<Rightarrow> state \<Rightarrow> nat \<times> state" where
  "run command name s =
     (let (p, s1) = spawn ''bash'' [''-lc'', command] ''inherit'' s;
          s2 = on (Child p) ''close'' (CloseLogger name) s1
      in (p, s2))"

definition banner :: string where
  "banner = ''=== Starting CoasterCapital Dev Environment ===''"

definition backend_command :: string where
  "backend_command = ''cd backend && source .venv/bin/activate && uvicorn app.main:app --reload''"

definition frontend_command :: string where
  "frontend_command = ''cd frontend && npm run dev''"

text \<open>The argument of the handler's \<open>console.log\<close>: a line feed, then the notice.\<close>

definition notice :: string where
  "notice = CHR 0x0A # ''Stopping all processes...''"

text \<open>The bodies of the two closures.\<close>

fun call :: "listener \<Rightarrow> jsval list \<Rightarrow> state \<Rightarrow> state" where
  "call (CloseLogger name) args s =
     console_log (''Process '' @ name @ '' stopped with code '' @ to_string (arg 0 args)) s"
| "call (SigintHandler backend frontend) args s =
     (let s1 = console_log notice s;
          s2 = kill backend ''SIGINT'' s1;
          s3 = kill frontend ''SIGINT'' s2
      in process_exit s3)"

text \<open>The top level of the script, from the banner to the registration of the handler.\<close>

definition main :: "state \<Rightarrow> state" where
  "main s0 =
     (let s1 = console_log banner s0;
          (backend, s2) = run backend_command ''backend'' s1;
          (frontend, s3) = run frontend_command ''frontend'' s2
      in on Process ''SIGINT'' (SigintHandler backend frontend) s3)"

subsection \<open>The event loop\<close>

text \<open>
  The script runs on the runtime's event emitters. \<open>emit\<close> calls the listeners
  registered for the event on the emitter, in the order of registration; a listener
  that ends the process ends the round; an event without listener is dropped. The one
  exception is the emitters' rule for \<open>error\<close>: an \<open>error\<close> event that has no listener
  is thrown by the emitter, and since nothing in the script catches it, the supervisor
  dies of the uncaught exception.

  A child reports its end by \<open>close\<close>, with the exit code (or \<open>null\<close> when a signal
  ended it) and the signal name (or \<open>null\<close>); it reports that its file could not be
  started by \<open>error\<close>. The supervisor's \<open>process\<close> object reports an interrupt by
  \<open>SIGINT\<close>.

  The runtime gives up the handle of a child that has ended before it calls the close
  listeners (\<open>release\<close>). Once a round of listeners is over and no child is active any
  more, nothing keeps the loop going (the interrupt listener does not), and the
  supervisor ends by itself (\<open>settle\<close>).
\<close>

definition listeners_of :: "emitter \<Rightarrow> string \<Rightarrow> state \<Rightarrow> listener list" where
  "listeners_of em ev s = map (\<lambda>(e, n, l). l) (filter (\<lambda>(e, n, l). e = em \<and> n = ev) (listeners s))"

fun call_all :: "listener list \<Rightarrow> jsval list \<Rightarrow> state \<Rightarrow> state" where
  "call_all [] args s = s"
| "call_all (l # ls) args s =
     (if status s = Running then call_all ls args (call l args s) else s)"

definition emit :: "emitter \<Rightarrow> string \<Rightarrow> jsval list \<Rightarrow> state \<Rightarrow> state" where
  "emit em ev args s =
     (let ls = listeners_of em ev s
      in if ls = [] \<and> ev = ''error'' then s\<lparr>status := Crashed\<rparr> else call_all ls args s)"

fun release :: "emitter \<Rightarrow> string \<Rightarrow> state \<Rightarrow> state" where
  "release (Child p) ev s = (if ev = ''close'' then s\<lparr>active := removeAll p (active s)\<rparr> else s)"
| "release Process ev s = s"

fun dispatch :: "event \<Rightarrow> state \<Rightarrow> state" where
  "dispatch (Event em ev args) s = emit em ev args (release em ev s)"

definition settle :: "state \<Rightarrow> state" where
  "settle s = (if status s = Running \<and> active s = [] then s\<lparr>status := Ended\<rparr> else s)"

text \<open>
  The loop hands the events to the script one by one for as long as the supervisor is
  alive; what happens after its end reaches no listener.
\<close>

fun event_loop :: "event list \<Rightarrow> state \<Rightarrow> state" where
  "event_loop [] s = s"
| "event_loop (e # es) s =
     (if status s = Running then event_loop es (settle (dispatch e s)) else s)"

text \<open>A whole execution: the top level, then the events the environment produces.\<close>

definition program :: "event list \<Rightarrow> state" where
  "program evs = event_loop evs (main init)"

text \<open>The handles the top level obtains, and the events the claims speak of.\<close>

definition backend :: nat where
  "backend = 0"

definition frontend :: nat where
  "frontend = 1"

definition close_event :: "nat \<Rightarrow> jsval \<Rightarrow> jsval \<Rightarrow> event" where
  "close_event p code sig = Event (Child p) ''close'' [code, sig]"

definition error_event :: "nat \<Rightarrow> jsval \<Rightarrow> event" where
  "error_event p err = Event (Child p) ''error'' [err]"

definition sigint_event :: event where
  "sigint_event = Event Process ''SIGINT'' [Str ''SIGINT'', Num 2]"

definition exit_log :: "string \<Rightarrow> jsval \<Rightarrow> effect" where
  "exit_log name code = Log (''Process '' @ name @ '' stopped with code '' @ to_string code)"

definition startup_trace :: "effect list" where
  "startup_trace =
     [Log banner,
      Spawn backend ''bash'' [''-lc'', backend_command],
      Spawn frontend ''bash'' [''-lc'', frontend_command]]"

definition shutdown_trace :: "effect list" where
  "shutdown_trace = [Log notice, Kill backend ''SIGINT'', Kill frontend ''SIGINT'', Exit]"

text \<open>Predicates on states and effects that the properties below are stated with.\<close>

definition booted :: "state \<Rightarrow> bool" where
  "booted s \<longleftrightarrow> listeners s = listeners (main init)"

fun is_spawn :: "effect \<Rightarrow> bool" where
  "is_spawn (Spawn p file args) = True"
| "is_spawn e = False"

fun is_exit_log :: "effect \<Rightarrow> bool" where
  "is_exit_log (Log msg) = (take 8 msg = ''Process '')"
| "is_exit_log e = False"

section \<open>The state after the top level\<close>

lemma main_init:
  "main init =
     \<lparr>trace = startup_trace,
      children = [\<lparr>spawnfile = ''bash'', spawnargs = [''-lc'', backend_command], stdio = ''inherit''\<rparr>,
                  \<lparr>spawnfile = ''bash'', spawnargs = [''-lc'', frontend_command], stdio = ''inherit''\<rparr>],
      active = [backend, frontend],
      listeners = [(Child backend, ''close'', CloseLogger ''backend''),
                   (Child frontend, ''close'', CloseLogger ''frontend''),
                   (Process, ''SIGINT'', SigintHandler backend frontend)],
      status = Running\<rparr>"
  by (simp add: main_def run_def spawn_def on_def console_log_def init_def startup_trace_def
      backend_def frontend_def)

lemma program_Nil: "program [] = main init"
  by (simp add: program_def)

lemma program_Nil_running: "status (program []) = Running"
  by (simp add: program_Nil main_init)

section \<open>What the listeners leave alone\<close>

lemma call_keeps:
  "listeners (call l args s) = listeners s" "children (call l args s) = children s"
  "active (call l args s) = active s"
  by (cases l; simp add: console_log_def kill_def process_exit_def)+

lemma call_all_keeps:
  "listeners (call_all ls args s) = listeners s \<and> children (call_all ls args s) = children s
   \<and> active (call_all ls args s) = active s"
  by (induction ls arbitrary: s) (simp_all add: call_keeps)

lemma release_keeps:
  "listeners (release em ev s) = listeners s" "children (release em ev s) = children s"
  "trace (release em ev s) = trace s" "status (release em ev s) = status s"
  by (cases em; simp)+

lemma settle_keeps:
  "listeners (settle s) = listeners s" "children (settle s) = children s"
  "trace (settle s) = trace s" "active (settle s) = active s"
  by (simp_all add: settle_def)

lemma settle_status:
  "status (settle s) = (if status s = Running \<and> active s = [] then Ended else status s)"
  by (simp add: settle_def)

lemma dispatch_keeps:
  "listeners (dispatch e s) = listeners s \<and> children (dispatch e s) = children s"
  by (cases e) (simp add: emit_def Let_def call_all_keeps release_keeps)

lemma event_loop_keeps:
  "listeners (event_loop evs s) = listeners s \<and> children (event_loop evs s) = children s"
  by (induction evs arbitrary: s) (simp_all add: dispatch_keeps settle_keeps)

lemma program_booted: "booted (program evs)"
  by (simp add: booted_def program_def event_loop_keeps)

section \<open>The event loop\<close>

lemma event_loop_stopped: "status s \<noteq> Running \<Longrightarrow> event_loop evs s = s"
  by (cases evs) simp_all

lemma event_loop_append: "event_loop (xs @ ys) s = event_loop ys (event_loop xs s)"
  by (induction xs arbitrary: s) (simp_all add: event_loop_stopped)

lemma program_snoc:
  "status (program evs) = Running \<Longrightarrow> program (evs @ [e]) = settle (dispatch e (program evs))"
  by (simp add: program_def event_loop_append)

lemma program_stopped:
  "status (program evs) \<noteq> Running \<Longrightarrow> program (evs @ rest) = program evs"
  by (simp add: program_def event_loop_append event_loop_stopped)

section \<open>One event in a running supervisor\<close>

lemma dispatch_close_backend:
  "booted s \<Longrightarrow> status s = Running \<Longrightarrow>
   dispatch (close_event backend code sig) s =
     s\<lparr>trace := trace s @ [exit_log ''backend'' code], active := removeAll backend (active s)\<rparr>"
  by (simp add: booted_def main_init close_event_def emit_def listeners_of_def backend_def
      frontend_def console_log_def exit_log_def)

lemma dispatch_close_frontend:
  "booted s \<Longrightarrow> status s = Running \<Longrightarrow>
   dispatch (close_event frontend code sig) s =
     s\<lparr>trace := trace s @ [exit_log ''frontend'' code], active := removeAll frontend (active s)\<rparr>"
  by (simp add: booted_def main_init close_event_def emit_def listeners_of_def backend_def
      frontend_def console_log_def exit_log_def)

lemma dispatch_sigint:
  "booted s \<Longrightarrow> status s = Running \<Longrightarrow>
   dispatch (Event Process ''SIGINT'' args) s =
     s\<lparr>trace := trace s @ shutdown_trace, status := Exited\<rparr>"
  by (simp add: booted_def main_init emit_def listeners_of_def backend_def frontend_def
      console_log_def kill_def process_exit_def shutdown_trace_def)

lemma dispatch_error:
  "booted s \<Longrightarrow> dispatch (Event (Child p) ''error'' args) s = s\<lparr>status := Crashed\<rparr>"
  by (simp add: booted_def main_init emit_def listeners_of_def)

text \<open>
  Every event does one of three things to the trace of a running supervisor: nothing,
  one exit-log line, or the shutdown sequence, and only the last leaves it \<open>Exited\<close>.
\<close>

lemma step_cases:
  assumes "booted s" "status s = Running"
  shows "(trace (settle (dispatch e s)) = trace s \<and> status (settle (dispatch e s)) \<noteq> Exited)
       \<or> (\<exists>name code. trace (settle (dispatch e s)) = trace s @ [exit_log name code]
             \<and> status (settle (dispatch e s)) \<noteq> Exited)
       \<or> (trace (settle (dispatch e s)) = trace s @ shutdown_trace
             \<and> status (settle (dispatch e s)) = Exited)"
proof (cases e)
  case (Event em ev args)
  have L: "listeners s = [(Child backend, ''close'', CloseLogger ''backend''),
                   (Child frontend, ''close'', CloseLogger ''frontend''),
                   (Process, ''SIGINT'', SigintHandler backend frontend)]"
    using assms(1) by (simp add: booted_def main_init)
  have "(em = Child backend \<and> ev = ''close'') \<or> (em = Child frontend \<and> ev = ''close'')
      \<or> (em = Process \<and> ev = ''SIGINT'') \<or> listeners_of em ev s = []"
    by (auto simp: listeners_of_def L)
  then consider (b) "em = Child backend" "ev = ''close''"
    | (f) "em = Child frontend" "ev = ''close''"
    | (i) "em = Process" "ev = ''SIGINT''"
    | (none) "listeners_of em ev s = []"
    by blast
  then show ?thesis
  proof cases
    case b
    have "dispatch e s = s\<lparr>trace := trace s @ [exit_log ''backend'' (arg 0 args)],
                            active := removeAll backend (active s)\<rparr>"
      using assms(2) by (simp add: Event b emit_def listeners_of_def L backend_def frontend_def
          console_log_def exit_log_def)
    then have "trace (settle (dispatch e s)) = trace s @ [exit_log ''backend'' (arg 0 args)]
        \<and> status (settle (dispatch e s)) \<noteq> Exited"
      using assms(2) by (simp add: settle_keeps settle_status)
    then show ?thesis by blast
  next
    case f
    have "dispatch e s = s\<lparr>trace := trace s @ [exit_log ''frontend'' (arg 0 args)],
                            active := removeAll frontend (active s)\<rparr>"
      using assms(2) by (simp add: Event f emit_def listeners_of_def L backend_def frontend_def
          console_log_def exit_log_def)
    then have "trace (settle (dispatch e s)) = trace s @ [exit_log ''frontend'' (arg 0 args)]
        \<and> status (settle (dispatch e s)) \<noteq> Exited"
      using assms(2) by (simp add: settle_keeps settle_status)
    then show ?thesis by blast
  next
    case i
    then show ?thesis using dispatch_sigint [OF assms]
      by (simp add: Event settle_keeps settle_status)
  next
    case none
    have "listeners_of em ev (release em ev s) = []"
      using none by (simp add: listeners_of_def release_keeps)
    then have "trace (dispatch e s) = trace s \<and> status (dispatch e s) \<noteq> Exited"
      using assms(2) by (simp add: Event emit_def release_keeps)
    then show ?thesis
      by (simp add: settle_keeps settle_status)
  qed
qed

section \<open>The shape of every trace\<close>

lemma exit_log_not_notice: "exit_log name code \<noteq> Log notice"
  by (simp add: exit_log_def notice_def)

lemma exit_log_is_exit_log: "is_exit_log (exit_log name code)"
  by (simp add: exit_log_def)

lemma shutdown_trace_no_exit_log: "filter is_exit_log shutdown_trace = []"
  by (simp add: shutdown_trace_def notice_def)

lemma step_booted: "booted s \<Longrightarrow> booted (settle (dispatch e s))"
  by (simp add: booted_def dispatch_keeps settle_keeps)

lemma event_loop_shape:
  assumes "booted s" "status s = Running" "Log notice \<notin> set (trace s)"
  shows "(Log notice \<notin> set (trace (event_loop evs s)) \<and> status (event_loop evs s) \<noteq> Exited)
       \<or> (\<exists>t. trace (event_loop evs s) = t @ shutdown_trace \<and> Log notice \<notin> set t
              \<and> status (event_loop evs s) = Exited)"
  using assms
proof (induction evs arbitrary: s)
  case Nil
  then show ?case by simp
next
  case (Cons e evs)
  let ?s' = "settle (dispatch e s)"
  have B: "booted ?s'" using Cons.prems(1) by (rule step_booted)
  have unfold: "event_loop (e # evs) s = event_loop evs ?s'"
    using Cons.prems(2) by simp
  have quiet: ?case if N: "Log notice \<notin> set (trace ?s')" and X: "status ?s' \<noteq> Exited"
  proof (cases "status ?s' = Running")
    case True
    from Cons.IH [OF B True N] show ?thesis by (simp only: unfold)
  next
    case False
    then have "event_loop evs ?s' = ?s'" by (rule event_loop_stopped)
    then show ?thesis using N X unfolding unfold by simp
  qed
  from step_cases [OF Cons.prems(1,2), of e]
  show ?case
  proof (elim disjE exE conjE)
    assume "trace ?s' = trace s" "status ?s' \<noteq> Exited"
    then show ?thesis using Cons.prems(3) by (intro quiet) simp_all
  next
    fix name code
    assume "trace ?s' = trace s @ [exit_log name code]" "status ?s' \<noteq> Exited"
    then show ?thesis using Cons.prems(3) exit_log_not_notice [of name code]
      by (intro quiet) auto
  next
    assume D: "trace ?s' = trace s @ shutdown_trace" "status ?s' = Exited"
    then have "event_loop evs ?s' = ?s'" by (intro event_loop_stopped) simp
    then show ?thesis using D Cons.prems(3) unfolding unfold by simp
  qed
qed

lemma program_shape:
  "(Log notice \<notin> set (trace (program evs)) \<and> status (program evs) \<noteq> Exited)
   \<or> (\<exists>t. trace (program evs) = t @ shutdown_trace \<and> Log notice \<notin> set t
          \<and> status (program evs) = Exited)"
  unfolding program_def
  by (rule event_loop_shape)
     (simp_all add: booted_def main_init startup_trace_def notice_def banner_def)

text \<open>One more event at the end of an execution whose supervisor is still running.\<close>

lemma program_sigint:
  assumes "status (program evs) = Running"
  shows "program (evs @ [Event Process ''SIGINT'' args]) =
           (program evs)\<lparr>trace := trace (program evs) @ shutdown_trace, status := Exited\<rparr>"
  using assms dispatch_sigint [OF program_booted assms, of args]
  by (simp add: program_snoc settle_def)

lemma program_close_backend:
  assumes "status (program evs) = Running"
  shows "trace (program (evs @ [close_event backend code sig])) =
           trace (program evs) @ [exit_log ''backend'' code]"
    and "status (program (evs @ [close_event backend code sig])) =
           (if removeAll backend (active (program evs)) = [] then Ended else Running)"
  using assms dispatch_close_backend [OF program_booted assms, of code sig]
  by (simp_all add: program_snoc settle_keeps settle_status)

lemma program_close_frontend:
  assumes "status (program evs) = Running"
  shows "trace (program (evs @ [close_event frontend code sig])) =
           trace (program evs) @ [exit_log ''frontend'' code]"
    and "status (program (evs @ [close_event frontend code sig])) =
           (if removeAll frontend (active (program evs)) = [] then Ended else Running)"
  using assms dispatch_close_frontend [OF program_booted assms, of code sig]
  by (simp_all add: program_snoc settle_keeps settle_status)

lemma program_error:
  assumes "status (program evs) = Running"
  shows "program (evs @ [error_event p err]) = (program evs)\<lparr>status := Crashed\<rparr>"
  using assms dispatch_error [OF program_booted, of p "[err]" evs]
  by (simp add: program_snoc error_event_def settle_def)

text \<open>No listener spawns, and every listener only adds to the trace.\<close>

lemma step_spawns:
  assumes "booted s" "status s = Running"
  shows "filter is_spawn (trace (settle (dispatch e s))) = filter is_spawn (trace s)"
  using step_cases [OF assms, of e]
  by (auto simp: exit_log_def shutdown_trace_def)

lemma event_loop_spawns:
  "booted s \<Longrightarrow> filter is_spawn (trace (event_loop evs s)) = filter is_spawn (trace s)"
proof (induction evs arbitrary: s)
  case Nil
  then show ?case by simp
next
  case (Cons e evs)
  from Cons.IH [OF step_booted [OF Cons.prems, of e]] step_spawns [OF Cons.prems, of e]
  show ?case by simp
qed

lemma step_extends:
  assumes "booted s" "status s = Running"
  shows "\<exists>t. trace (settle (dispatch e s)) = trace s @ t"
  using step_cases [OF assms, of e] by auto

lemma event_loop_extends:
  "booted s \<Longrightarrow> \<exists>t. trace (event_loop evs s) = trace s @ t"
proof (induction evs arbitrary: s)
  case Nil
  then show ?case by simp
next
  case (Cons e evs)
  show ?case
  proof (cases "status s = Running")
    case True
    from Cons.IH [OF step_booted [OF Cons.prems, of e]] obtain t where
      t: "trace (event_loop evs (settle (dispatch e s))) = trace (settle (dispatch e s)) @ t"
      by blast
    from step_extends [OF Cons.prems True, of e] obtain u where
      u: "trace (settle (dispatch e s)) = trace s @ u" by blast
    show ?thesis using True t u by simp
  next
    case False
    then show ?thesis by simp
  qed
qed

section \<open>Startup\<close>

text \<open>
  Claim C4. On launch the supervisor first prints the banner line, then starts exactly
  two managed processes in a fixed order, the backend before the frontend, without
  waiting for either to become ready.

  With no event at all from the environment (no child has reported anything) the trace
  of the execution is the banner, the spawn of the backend shell, the spawn of the
  frontend shell, and the supervisor is running; and whatever events follow, every
  trace begins with these three effects.
\<close>

theorem startup_order:
  "trace (program []) =
     [Log banner,
      Spawn backend ''bash'' [''-lc'', backend_command],
      Spawn frontend ''bash'' [''-lc'', frontend_command]]
   \<and> status (program []) = Running
   \<and> take 3 (trace (program evs)) = trace (program [])"
proof -
  have "booted (main init)" by (simp add: booted_def)
  from event_loop_extends [OF this, of evs] obtain t where
    "trace (program evs) = startup_trace @ t"
    by (auto simp: program_def main_init)
  then show ?thesis
    by (simp add: program_Nil main_init startup_trace_def)
qed

text \<open>
  Claim C5. Exactly two managed processes are ever created by the supervisor: after any
  sequence of events the supervisor has two children, and the spawns in its trace are
  the two of the startup, so that no close notification, error or interrupt spawns a
  third.
\<close>

theorem two_children:
  "length (children (program evs)) = 2
   \<and> filter is_spawn (trace (program evs)) =
       [Spawn backend ''bash'' [''-lc'', backend_command],
        Spawn frontend ''bash'' [''-lc'', frontend_command]]"
proof -
  have B: "booted (main init)" by (simp add: booted_def)
  have "children (program evs) = children (main init)"
    by (simp add: program_def event_loop_keeps)
  moreover have "filter is_spawn (trace (program evs)) = filter is_spawn (trace (main init))"
    unfolding program_def by (rule event_loop_spawns [OF B])
  ultimately show ?thesis
    by (simp add: main_init startup_trace_def)
qed

section \<open>Shutdown\<close>

text \<open>
  Claim C1. When the supervisor process receives an interrupt signal, it performs
  exactly this sequence: it prints the shutdown notice, sends an interrupt signal to the
  backend process, sends an interrupt signal to the frontend process, and terminates its
  own process at once, without waiting for either child to terminate.

  Whatever events came before (in particular: whether or not a child has reported its
  termination), an interrupt that reaches the running supervisor adds exactly these four
  effects to the trace, in this order, and leaves the supervisor exited; the handler
  takes no further event before the exit.
\<close>

theorem sigint_sequence:
  assumes "status (program evs) = Running"
  shows "trace (program (evs @ [Event Process ''SIGINT'' args])) =
           trace (program evs) @
             [Log notice, Kill backend ''SIGINT'', Kill frontend ''SIGINT'', Exit]
         \<and> status (program (evs @ [Event Process ''SIGINT'' args])) = Exited"
  by (simp add: program_sigint [OF assms] shutdown_trace_def)

theorem sigint_sequence_witness:
  "status (program []) = Running
   \<and> trace (program [sigint_event]) =
       [Log banner,
        Spawn backend ''bash'' [''-lc'', backend_command],
        Spawn frontend ''bash'' [''-lc'', frontend_command],
        Log notice, Kill backend ''SIGINT'', Kill frontend ''SIGINT'', Exit]
   \<and> status (program [sigint_event]) = Exited"
proof -
  have h: "status (program []) = Running"
    by (simp add: program_Nil main_init)
  from sigint_sequence [OF h, of "[Str ''SIGINT'', Num 2]"] h show ?thesis
    by (simp add: sigint_event_def program_Nil main_init startup_trace_def)
qed

text \<open>
  Claim C8. A second interrupt signal sent to the supervisor after shutdown has begun
  neither throws nor hangs: the supervisor is already exiting.

  After the first interrupt the supervisor has exited (it has not crashed), and an
  execution in which a second interrupt and any further events follow ends in the very
  same state: the second interrupt reaches no listener.
\<close>

theorem second_sigint:
  assumes "status (program evs) = Running"
  shows "status (program (evs @ [sigint_event])) = Exited
         \<and> program (evs @ sigint_event # sigint_event # rest) = program (evs @ [sigint_event])"
proof -
  have E: "status (program (evs @ [sigint_event])) = Exited"
    by (simp add: sigint_event_def program_sigint [OF assms])
  then have "program ((evs @ [sigint_event]) @ sigint_event # rest) = program (evs @ [sigint_event])"
    by (intro program_stopped) simp
  with E show ?thesis by simp
qed

theorem second_sigint_witness:
  "status (program []) = Running
   \<and> status (program [sigint_event]) = Exited
   \<and> program [sigint_event, sigint_event] = program [sigint_event]"
proof -
  have h: "status (program []) = Running"
    by (simp add: program_Nil main_init)
  from second_sigint [OF h, of "[]"] h show ?thesis by simp
qed

text \<open>
  Claim C9. The handler's exit runs in the same handler as the notice and the two
  signals, before any further event is processed, so that no exit-log line is ever
  printed after the shutdown notice.

  In every execution whose trace holds the shutdown notice, the trace from the notice
  on is the notice, the two \<open>kill\<close> calls and the exit, and nothing else: no exit-log
  line follows the notice, whatever close notifications were pending.
\<close>

theorem no_exit_log_after_notice:
  assumes "Log notice \<in> set (trace (program evs))"
  shows "dropWhile (\<lambda>e. e \<noteq> Log notice) (trace (program evs)) =
           [Log notice, Kill backend ''SIGINT'', Kill frontend ''SIGINT'', Exit]
         \<and> filter is_exit_log (dropWhile (\<lambda>e. e \<noteq> Log notice) (trace (program evs))) = []
         \<and> status (program evs) = Exited"
proof -
  from program_shape [of evs] assms obtain t where
    t: "trace (program evs) = t @ shutdown_trace" "Log notice \<notin> set t"
    and E: "status (program evs) = Exited"
    by blast
  have "dropWhile (\<lambda>e. e \<noteq> Log notice) (t @ shutdown_trace) =
        dropWhile (\<lambda>e. e \<noteq> Log notice) shutdown_trace"
    using t(2) by (intro dropWhile_append2) auto
  also have "\<dots> = shutdown_trace"
    by (simp add: shutdown_trace_def)
  finally have "dropWhile (\<lambda>e. e \<noteq> Log notice) (trace (program evs)) = shutdown_trace"
    by (simp add: t(1))
  then show ?thesis using E
    by (simp add: shutdown_trace_def notice_def)
qed

theorem no_exit_log_after_notice_witness:
  "Log notice \<in> set (trace (program
      [close_event backend (Num 0) Null, sigint_event,
       close_event frontend Null (Str ''SIGINT'')]))
   \<and> dropWhile (\<lambda>e. e \<noteq> Log notice) (trace (program
      [close_event backend (Num 0) Null, sigint_event,
       close_event frontend Null (Str ''SIGINT'')])) =
       [Log notice, Kill backend ''SIGINT'', Kill frontend ''SIGINT'', Exit]"
proof -
  have h: "Log notice \<in> set (trace (program
      [close_event backend (Num 0) Null, sigint_event,
       close_event frontend Null (Str ''SIGINT'')]))"
    by (simp add: program_def main_init close_event_def sigint_event_def emit_def settle_def
        listeners_of_def backend_def frontend_def console_log_def kill_def process_exit_def)
  from no_exit_log_after_notice [OF h] h show ?thesis by simp
qed

section \<open>Exit logging\<close>

text \<open>
  Claim C6. If the backend command fails immediately (for example, a missing virtual
  environment), the supervisor still starts the frontend process and logs a termination
  line for backend with a non-zero or absent code, without crashing.

  The shell of the backend runs the command, the command fails, and the shell's end is
  the first event of the execution: a close notification on the backend handle with the
  code the runtime reports. The trace is then the startup (with the spawn of the
  frontend) followed by the line for backend with that code, and the supervisor is
  running; with code 1 the line reads \<open>Process backend stopped with code 1\<close>.
\<close>

theorem backend_failure_logged:
  "trace (program [close_event backend code sig]) =
     [Log banner,
      Spawn backend ''bash'' [''-lc'', backend_command],
      Spawn frontend ''bash'' [''-lc'', frontend_command],
      Log (''Process backend stopped with code '' @ to_string code)]
   \<and> status (program [close_event backend code sig]) = Running
   \<and> last (trace (program [close_event backend (Num 1) Null])) =
       Log ''Process backend stopped with code 1''"
proof -
  have "removeAll backend (active (program [])) \<noteq> []"
    by (simp add: program_Nil main_init backend_def frontend_def)
  with program_close_backend [OF program_Nil_running, of code sig]
    program_close_backend(1) [OF program_Nil_running, of "Num 1" Null]
  show ?thesis
    by (simp add: program_Nil main_init startup_trace_def exit_log_def show_int_def digit_def)
qed

text \<open>
  Claim C2, as the specification states it: for every managed process that terminates,
  the supervisor emits exactly one line \<open>Process <name> stopped with code <code>\<close>.
  This fails for a child that terminates after the supervisor's own exit: the interrupt
  handler ends the supervisor without waiting, so the backend that the forwarded signal
  then terminates gets no line.
\<close>

theorem exit_line_missing_after_shutdown:
  "trace (program [sigint_event, close_event backend Null (Str ''SIGINT'')]) =
     [Log banner,
      Spawn backend ''bash'' [''-lc'', backend_command],
      Spawn frontend ''bash'' [''-lc'', frontend_command],
      Log notice, Kill backend ''SIGINT'', Kill frontend ''SIGINT'', Exit]
   \<and> filter is_exit_log
        (trace (program [sigint_event, close_event backend Null (Str ''SIGINT'')])) = []"
proof -
  have "program ([sigint_event] @ [close_event backend Null (Str ''SIGINT'')]) =
        program [sigint_event]"
    using program_sigint [OF program_Nil_running, of "[Str ''SIGINT'', Num 2]"]
    by (intro program_stopped) (simp add: sigint_event_def)
  then show ?thesis
    using program_sigint [OF program_Nil_running, of "[Str ''SIGINT'', Num 2]"]
    by (simp add: sigint_event_def program_Nil main_init startup_trace_def shutdown_trace_def
        banner_def notice_def)
qed

text \<open>
  Claim C2, amended. For every managed process whose close notification reaches the
  supervisor while it is still running, the supervisor emits exactly one line
  \<open>Process <name> stopped with code <code>\<close>: the trace grows by that one line and
  nothing else. The code is printed as the runtime reports it: exit code 0 as \<open>0\<close>, and
  the absent code of a process terminated by a signal as \<open>null\<close>, not as a number.
\<close>

theorem exit_line_while_running:
  assumes "status (program evs) = Running"
  shows "trace (program (evs @ [close_event backend code sig])) =
           trace (program evs) @ [Log (''Process backend stopped with code '' @ to_string code)]
         \<and> trace (program (evs @ [close_event frontend code sig])) =
           trace (program evs) @ [Log (''Process frontend stopped with code '' @ to_string code)]
         \<and> to_string (Num 0) = ''0''
         \<and> to_string Null = ''null''"
  by (simp add: program_close_backend [OF assms] program_close_frontend [OF assms]
      exit_log_def show_int_def digit_def)

theorem exit_line_while_running_witness:
  "status (program []) = Running
   \<and> last (trace (program [close_event backend (Num 0) Null])) =
       Log ''Process backend stopped with code 0''
   \<and> last (trace (program [close_event frontend Null (Str ''SIGTERM'')])) =
       Log ''Process frontend stopped with code null''"
proof -
  have h: "status (program []) = Running"
    by (simp add: program_Nil main_init)
  from exit_line_while_running [OF h, of "Num 0" Null]
       exit_line_while_running [OF h, of Null "Str ''SIGTERM''"] h
  show ?thesis by simp
qed

text \<open>
  Claim C10, as stated: every managed-process termination produces exactly one exit-log
  line, never zero. After an interrupt both children terminate, and the trace holds no
  exit-log line at all.
\<close>

theorem no_exit_lines_after_shutdown:
  "filter is_exit_log
     (trace (program [sigint_event,
                      close_event backend Null (Str ''SIGINT''),
                      close_event frontend Null (Str ''SIGINT'')])) = []"
proof -
  have "program ([sigint_event] @ [close_event backend Null (Str ''SIGINT''),
                      close_event frontend Null (Str ''SIGINT'')]) =
        program [sigint_event]"
    using program_sigint [OF program_Nil_running, of "[Str ''SIGINT'', Num 2]"]
    by (intro program_stopped) (simp add: sigint_event_def)
  then show ?thesis
    using program_sigint [OF program_Nil_running, of "[Str ''SIGINT'', Num 2]"]
    by (simp add: sigint_event_def program_Nil main_init startup_trace_def shutdown_trace_def
        banner_def notice_def)
qed

text \<open>
  Claim C10, amended. Each call of \<open>run\<close> registers exactly one listener, a close
  listener on the process it has spawned; in every execution each of the two children
  has exactly one close listener; and every close notification of a child that reaches
  the supervisor while it is running produces exactly one exit-log line, never zero and
  never more than one.
\<close>

theorem one_close_listener:
  assumes "status (program evs) = Running" "p = backend \<or> p = frontend"
  shows "listeners (snd (run command name s)) =
           listeners s @ [(Child (fst (run command name s)), ''close'', CloseLogger name)]
         \<and> length (listeners_of (Child p) ''close'' (program evs)) = 1
         \<and> length (filter is_exit_log (trace (program (evs @ [close_event p code sig])))) =
             length (filter is_exit_log (trace (program evs))) + 1"
proof -
  have "listeners (program evs) = listeners (main init)"
    using program_booted [of evs] by (simp add: booted_def)
  then have "length (listeners_of (Child p) ''close'' (program evs)) = 1"
    using assms(2) by (auto simp: listeners_of_def main_init backend_def frontend_def)
  moreover have "length (filter is_exit_log (trace (program (evs @ [close_event p code sig])))) =
             length (filter is_exit_log (trace (program evs))) + 1"
    using assms(2) program_close_backend [OF assms(1), of code sig]
      program_close_frontend [OF assms(1), of code sig]
    by (auto simp: exit_log_is_exit_log)
  ultimately show ?thesis
    by (simp add: run_def spawn_def on_def Let_def)
qed

theorem one_close_listener_witness:
  "status (program []) = Running \<and> (backend = backend \<or> backend = frontend)
   \<and> listeners (snd (run backend_command ''backend'' init)) =
       [(Child 0, ''close'', CloseLogger ''backend'')]
   \<and> length (listeners_of (Child backend) ''close'' (program [])) = 1
   \<and> length (filter is_exit_log (trace (program [close_event backend (Num 0) Null]))) = 1"
proof -
  have h: "status (program []) = Running" "backend = backend \<or> backend = frontend"
    by (simp_all add: program_Nil main_init)
  have t: "trace (program []) = startup_trace"
    by (simp add: program_Nil main_init)
  have f: "fst (run backend_command ''backend'' init) = 0" "listeners init = []"
    by (simp_all add: run_def spawn_def on_def Let_def init_def)
  from one_close_listener [OF h, of backend_command "''backend''" init "Num 0" Null] h
  show ?thesis
    by (simp add: t f startup_trace_def banner_def)
qed

section \<open>Failures of a child\<close>

text \<open>
  Claim C3, as stated: a shell that cannot be started is reported through the
  exit-logging path and does not crash the supervisor. The runtime reports a shell that
  cannot be started by an \<open>error\<close> event on the child; the script registers no listener
  for it, so the event is thrown: the supervisor ends, and no exit-log line is printed.
\<close>

theorem spawn_error_crashes:
  "status (program [error_event backend (Str ''spawn bash ENOENT'')]) = Crashed
   \<and> filter is_exit_log (trace (program [error_event backend (Str ''spawn bash ENOENT'')])) = []"
  using program_error [OF program_Nil_running, of backend "Str ''spawn bash ENOENT''"]
  by (simp add: program_Nil main_init startup_trace_def banner_def)

text \<open>
  Claim C3, amended. A failure of a child that the runtime reports by a close
  notification (the shell started, and the command failed or could not be started, so
  that the shell ended with a non-zero code) is reported through the exit-logging path
  as the process stopping with that code, and it does not crash the supervisor: the
  supervisor keeps running while the other child is still active, and ends by itself,
  with nothing left to wait for, when the child that failed was the last one. A failure
  that the runtime reports by an \<open>error\<close> event on the child (the shell itself could not
  be started) has no listener in the script: nothing is logged and the supervisor ends
  with the uncaught error.
\<close>

theorem child_failure_paths:
  assumes "status (program evs) = Running"
  shows "trace (program (evs @ [close_event backend code sig])) =
             trace (program evs) @ [exit_log ''backend'' code]
         \<and> status (program (evs @ [close_event backend code sig])) =
             (if removeAll backend (active (program evs)) = [] then Ended else Running)
         \<and> status (program (evs @ [close_event backend code sig])) \<noteq> Crashed
         \<and> trace (program (evs @ [close_event frontend code sig])) =
             trace (program evs) @ [exit_log ''frontend'' code]
         \<and> status (program (evs @ [close_event frontend code sig])) =
             (if removeAll frontend (active (program evs)) = [] then Ended else Running)
         \<and> status (program (evs @ [close_event frontend code sig])) \<noteq> Crashed
         \<and> status (program (evs @ [error_event p err])) = Crashed
         \<and> trace (program (evs @ [error_event p err])) = trace (program evs)"
  by (simp add: program_close_backend [OF assms] program_close_frontend [OF assms]
      program_error [OF assms])

theorem child_failure_paths_witness:
  "status (program []) = Running
   \<and> status (program [close_event backend (Num 127) Null]) = Running
   \<and> last (trace (program [close_event backend (Num 127) Null])) =
       Log ''Process backend stopped with code 127''
   \<and> status (program [close_event frontend (Num 1) Null]) = Running
   \<and> status (program [close_event frontend (Num 1) Null, close_event backend (Num 1) Null]) = Ended
   \<and> last (trace (program [close_event frontend (Num 1) Null, close_event backend (Num 1) Null])) =
       Log ''Process backend stopped with code 1''
   \<and> status (program [error_event frontend (Str ''spawn bash ENOENT'')]) = Crashed
   \<and> trace (program [error_event frontend (Str ''spawn bash ENOENT'')]) = trace (program [])"
proof -
  have h: "status (program []) = Running"
    by (simp add: program_Nil main_init)
  have a0: "removeAll backend (active (program [])) = [frontend]"
    by (simp add: program_Nil main_init backend_def frontend_def)
  have g: "status (program [close_event frontend (Num 1) Null]) = Running"
    "removeAll backend (active (program [close_event frontend (Num 1) Null])) = []"
    by (simp_all add: program_def main_init close_event_def emit_def settle_def
        listeners_of_def backend_def frontend_def console_log_def)
  from child_failure_paths [OF h, of "Num 127" Null frontend "Str ''spawn bash ENOENT''"]
       child_failure_paths [OF g(1), of "Num 1" Null frontend Null]
       h g a0
  show ?thesis
    by (simp add: exit_log_def show_int_def digit_def)
qed

end
